theory Spec2Isabelle
  imports Complex_Main "HOL-Library.Word" "HOL-Library.Sublist"
begin

section \<open>Checkpoint deltas (the Rust code that \<^verbatim>\<open>src/fix_checkpoints.py\<close> installs)\<close>

text \<open>
  \<^verbatim>\<open>fix_checkpoints.py\<close> inserts the struct \<^verbatim>\<open>CheckpointDelta\<close> and the two methods
  \<^verbatim>\<open>TaskCheckpoint::compute_delta\<close> and \<^verbatim>\<open>TaskCheckpoint::apply_delta\<close> into
  \<^verbatim>\<open>src/session/checkpoint.rs\<close>. The methods are embedded below, branch by branch.

  The declaration of \<^verbatim>\<open>TaskCheckpoint\<close> itself and of the element types
  (\<^verbatim>\<open>Message\<close>, \<^verbatim>\<open>MemoryEntry\<close>, \<^verbatim>\<open>ToolCallLog\<close>, \<^verbatim>\<open>ErrorLog\<close>, \<^verbatim>\<open>GitCheckpointInfo\<close>,
  \<^verbatim>\<open>DateTime<Utc>\<close>, \<^verbatim>\<open>TaskStatus\<close>) is not part of the patch. The two methods only clone
  these values and compare them with \<^verbatim>\<open>!=\<close>, so the element types are type parameters and
  \<^verbatim>\<open>!=\<close> is read as structural inequality.
\<close>

type_synonym u32 = "32 word"
type_synonym usize = "64 word"

text \<open>Modelled from the spec: the enum \<^verbatim>\<open>TaskStatus\<close>, which the patch uses and does not
  declare; section 3 of the specification lists its five values.\<close>

datatype TaskStatus = Pending | Running | Blocked | Completed | Failed

text \<open>Modelled from the spec: the struct \<^verbatim>\<open>TaskCheckpoint\<close>, whose declaration the patch
  leaves in place and does not show. Its fields are the ones the two methods read and
  write, which are also the fields section 3 of the specification lists.\<close>

record ('msg, 'mem, 'tc, 'el, 'git, 'ts) TaskCheckpoint =
  task_id :: string
  version :: u32
  updated_at :: 'ts
  status :: TaskStatus
  current_step :: usize
  current_iteration :: usize
  messages :: "'msg list"
  memory_entries :: "'mem list"
  tool_calls :: "'tc list"
  errors :: "'el list"
  estimated_tokens :: usize
  git_checkpoint :: "'git option"

text \<open>\<^verbatim>\<open>pub struct CheckpointDelta\<close>. The fields that share a name with a field of
  \<^verbatim>\<open>TaskCheckpoint\<close> carry the prefix \<open>delta_\<close>.\<close>

record ('msg, 'mem, 'tc, 'el, 'git, 'ts) CheckpointDelta =
  delta_task_id :: string
  base_version :: u32
  target_version :: u32
  delta_updated_at :: 'ts
  delta_status :: "TaskStatus option"
  delta_current_step :: "usize option"
  delta_current_iteration :: "usize option"
  new_messages :: "'msg list"
  new_memory_entries :: "'mem list"
  new_tool_calls :: "'tc list"
  new_errors :: "'el list"
  updated_tokens :: "usize option"
  delta_git_checkpoint :: "'git option"

text \<open>The only error \<^verbatim>\<open>apply_delta\<close> returns:
  \<^verbatim>\<open>Err(anyhow::anyhow!("Delta task ID mismatch"))\<close>, the specification's \<^verbatim>\<open>TaskMismatch\<close>.\<close>

datatype error = TaskMismatch

text \<open>\<^verbatim>\<open>if cur.len() > base.len() { cur[base.len()..].to_vec() } else { Vec::new() }\<close>\<close>

definition new_suffix :: "'a list \<Rightarrow> 'a list \<Rightarrow> 'a list" where
  "new_suffix cur base = (if length cur > length base then drop (length base) cur else [])"

text \<open>\<^verbatim>\<open>pub fn compute_delta(&self, base: &TaskCheckpoint) -> Option<CheckpointDelta>\<close>;
  the first argument is \<^verbatim>\<open>self\<close>.\<close>

definition compute_delta ::
  "('msg, 'mem, 'tc, 'el, 'git, 'ts) TaskCheckpoint
   \<Rightarrow> ('msg, 'mem, 'tc, 'el, 'git, 'ts) TaskCheckpoint
   \<Rightarrow> ('msg, 'mem, 'tc, 'el, 'git, 'ts) CheckpointDelta option" where
  "compute_delta self base =
    (if task_id self \<noteq> task_id base then None
     else Some \<lparr>
       delta_task_id = task_id self,
       base_version = version base,
       target_version = version self,
       delta_updated_at = updated_at self,
       delta_status = (if status self \<noteq> status base then Some (status self) else None),
       delta_current_step =
         (if current_step self \<noteq> current_step base then Some (current_step self) else None),
       delta_current_iteration =
         (if current_iteration self \<noteq> current_iteration base
          then Some (current_iteration self) else None),
       new_messages = new_suffix (messages self) (messages base),
       new_memory_entries = new_suffix (memory_entries self) (memory_entries base),
       new_tool_calls = new_suffix (tool_calls self) (tool_calls base),
       new_errors = new_suffix (errors self) (errors base),
       updated_tokens =
         (if estimated_tokens self \<noteq> estimated_tokens base
          then Some (estimated_tokens self) else None),
       delta_git_checkpoint =
         (if git_checkpoint self \<noteq> git_checkpoint base then git_checkpoint self else None)
     \<rparr>)"

text \<open>\<^verbatim>\<open>pub fn apply_delta(&mut self, delta: &CheckpointDelta) -> Result<()>\<close>. The method
  mutates \<^verbatim>\<open>self\<close> in place, so the embedding returns the \<^verbatim>\<open>Result\<close> together with the
  checkpoint as the call leaves it, also when the result is an error. The assignments are
  applied in the order of the source.\<close>

definition apply_delta ::
  "('msg, 'mem, 'tc, 'el, 'git, 'ts) TaskCheckpoint
   \<Rightarrow> ('msg, 'mem, 'tc, 'el, 'git, 'ts) CheckpointDelta
   \<Rightarrow> (error + unit) \<times> ('msg, 'mem, 'tc, 'el, 'git, 'ts) TaskCheckpoint" where
  "apply_delta self delta =
    (if task_id self \<noteq> delta_task_id delta then (Inl TaskMismatch, self)
     else
       let s1 = self\<lparr>version := target_version delta\<rparr>;
           s2 = s1\<lparr>updated_at := delta_updated_at delta\<rparr>;
           s3 = (case delta_status delta of Some st \<Rightarrow> s2\<lparr>status := st\<rparr> | None \<Rightarrow> s2);
           s4 = (case delta_current_step delta of
                   Some step \<Rightarrow> s3\<lparr>current_step := step\<rparr> | None \<Rightarrow> s3);
           s5 = (case delta_current_iteration delta of
                   Some iter \<Rightarrow> s4\<lparr>current_iteration := iter\<rparr> | None \<Rightarrow> s4);
           s6 = s5\<lparr>messages := messages s5 @ new_messages delta\<rparr>;
           s7 = s6\<lparr>memory_entries := memory_entries s6 @ new_memory_entries delta\<rparr>;
           s8 = s7\<lparr>tool_calls := tool_calls s7 @ new_tool_calls delta\<rparr>;
           s9 = s8\<lparr>errors := errors s8 @ new_errors delta\<rparr>;
           s10 = (case updated_tokens delta of
                    Some tokens \<Rightarrow> s9\<lparr>estimated_tokens := tokens\<rparr> | None \<Rightarrow> s9);
           s11 = (case delta_git_checkpoint delta of
                    Some git \<Rightarrow> s10\<lparr>git_checkpoint := Some git\<rparr> | None \<Rightarrow> s10)
       in (Inr (), s11))"

text \<open>Concrete checkpoints for the examples: messages and the other entries are strings,
  the version-control marker is a commit id, a timestamp is a number of seconds.\<close>

type_synonym example_checkpoint = "(string, string, string, string, string, int) TaskCheckpoint"
type_synonym example_delta = "(string, string, string, string, string, int) CheckpointDelta"

definition example_base :: example_checkpoint where
  "example_base = \<lparr>
     task_id = ''task-1'', version = 3, updated_at = 100, status = Running,
     current_step = 2, current_iteration = 5,
     messages = [''m1'', ''m2'', ''m3''], memory_entries = [''e1''], tool_calls = [],
     errors = [], estimated_tokens = 900, git_checkpoint = Some ''abc123'' \<rparr>"

definition example_later :: example_checkpoint where
  "example_later = \<lparr>
     task_id = ''task-1'', version = 4, updated_at = 160, status = Blocked,
     current_step = 3, current_iteration = 5,
     messages = [''m1'', ''m2'', ''m3'', ''m4''], memory_entries = [''e1''],
     tool_calls = [''t1''], errors = [''boom''], estimated_tokens = 1200,
     git_checkpoint = Some ''def456'' \<rparr>"

definition example_git_cleared :: example_checkpoint where
  "example_git_cleared = example_later\<lparr>git_checkpoint := None\<rparr>"

definition example_other_task :: example_checkpoint where
  "example_other_task = example_later\<lparr>task_id := ''task-2''\<rparr>"

definition scenario_delta :: example_delta where
  "scenario_delta = \<lparr>
     delta_task_id = ''task-1'', base_version = 3, target_version = 4,
     delta_updated_at = 160, delta_status = None, delta_current_step = None,
     delta_current_iteration = None, new_messages = [''m4''], new_memory_entries = [],
     new_tool_calls = [], new_errors = [], updated_tokens = None,
     delta_git_checkpoint = None \<rparr>"

section \<open>The session orchestrator (\<^verbatim>\<open>src/system_tests/long_running/test_runner.py\<close>)\<close>

text \<open>
  The orchestrator reads a clock, a directory that another process writes, and the exit
  status of an external command. These are inputs of the embedding: every method takes
  the world and the current time, and the mutable objects (\<^verbatim>\<open>MegaTestRunner\<close> with its
  \<^verbatim>\<open>SessionMetrics\<close>, \<^verbatim>\<open>CheckpointManager\<close> and \<^verbatim>\<open>TestMonitor\<close>) are one record that is
  passed along and returned updated. An exception is a value of \<open>pyexn\<close>; a method that
  can raise returns \<open>Inl\<close> of it together with the state as the exception leaves it.

  Idealisations. Python floats are real numbers (no rounding, no infinity, no NaN); an
  int that is too large for a float raises as in Python. Only \<^verbatim>\<open>time.sleep(30)\<close> takes time, and it
  takes exactly 30 seconds; a shutdown signal is delivered during a sleep. Writes into
  the session's own directory succeed; they are recorded in the trace.
\<close>

subsection \<open>Python values\<close>

text \<open>A value as \<^verbatim>\<open>json.load\<close> returns it. An object is the list of its items (the keys of
  a dict are distinct); a string holds one character per code point.\<close>

datatype json =
    JNull
  | JBool bool
  | JInt int
  | JFloat real
  | JStr string
  | JArr "json list"
  | JObj "(string \<times> json) list"

datatype pyexn = OSError | AttributeError | TypeError | OverflowError

text \<open>\<^verbatim>\<open>d.get(key, default)\<close>: only a dict has the method.\<close>

fun dict_get :: "json \<Rightarrow> string \<Rightarrow> json \<Rightarrow> pyexn + json" where
  "dict_get (JObj kvs) k dflt = Inr (case map_of kvs k of Some v \<Rightarrow> v | None \<Rightarrow> dflt)"
| "dict_get _ k dflt = Inl AttributeError"

text \<open>\<^verbatim>\<open>len(v)\<close>\<close>

fun py_len :: "json \<Rightarrow> pyexn + int" where
  "py_len (JStr s) = Inr (int (length s))"
| "py_len (JArr xs) = Inr (int (length xs))"
| "py_len (JObj kvs) = Inr (int (length kvs))"
| "py_len _ = Inl TypeError"

text \<open>The truth value of \<^verbatim>\<open>v\<close> in \<^verbatim>\<open>if v:\<close>\<close>

fun py_truthy :: "json \<Rightarrow> bool" where
  "py_truthy JNull = False"
| "py_truthy (JBool b) = b"
| "py_truthy (JInt n) = (n \<noteq> 0)"
| "py_truthy (JFloat x) = (x \<noteq> 0)"
| "py_truthy (JStr s) = (s \<noteq> [])"
| "py_truthy (JArr xs) = (xs \<noteq> [])"
| "py_truthy (JObj kvs) = (kvs \<noteq> [])"

text \<open>\<^verbatim>\<open>1000 + (v * 50)\<close>: a number gives a number; a string or a list is repeated by
  \<^verbatim>\<open>*\<close> and then cannot be added to 1000; \<^verbatim>\<open>None\<close> and a dict cannot be multiplied.\<close>

fun loc_estimate :: "json \<Rightarrow> pyexn + json" where
  "loc_estimate (JInt n) = Inr (JInt (1000 + n * 50))"
| "loc_estimate (JBool b) = Inr (JInt (1000 + (if b then 1 else 0) * 50))"
| "loc_estimate (JFloat x) = Inr (JFloat (1000 + x * 50))"
| "loc_estimate _ = Inl TypeError"

text \<open>The magnitude from which the conversion of an int to a float raises
  \<^verbatim>\<open>OverflowError\<close> ("int too large to convert to float"): the least integer that rounds
  beyond the largest double.\<close>

definition float_limit :: int where
  "float_limit = 2 ^ 1024 - 2 ^ 970"

text \<open>\<^verbatim>\<open>v / d\<close> for a float \<^verbatim>\<open>d\<close> that is not zero. An int on the left is converted to a
  float first.\<close>

fun py_truediv :: "json \<Rightarrow> real \<Rightarrow> pyexn + real" where
  "py_truediv (JInt n) d =
     (if \<bar>n\<bar> < float_limit then Inr (real_of_int n / d) else Inl OverflowError)"
| "py_truediv (JBool b) d = Inr ((if b then 1 else 0) / d)"
| "py_truediv (JFloat x) d = Inr (x / d)"
| "py_truediv _ d = Inl TypeError"

text \<open>\<^verbatim>\<open>int(x)\<close> for a float: truncation towards zero\<close>

definition py_int :: "real \<Rightarrow> int" where
  "py_int x = (if x \<ge> 0 then \<lfloor>x\<rfloor> else \<lceil>x\<rceil>)"

subsection \<open>Data\<close>

text \<open>\<^verbatim>\<open>class TestConfig\<close>, without \<^verbatim>\<open>project_specs\<close>, which only the log lines read.\<close>

record TestConfig =
  session_id :: string
  project_type :: string
  duration_hours :: int
  agent_count :: int
  checkpoint_interval_min :: int

text \<open>\<^verbatim>\<open>class SessionMetrics\<close>. The three fields that \<^verbatim>\<open>_update_metrics\<close> fills from the
  checkpoint file hold whatever value the file gives. The field \<^verbatim>\<open>status\<close> is
  \<open>session_status\<close> here.\<close>

record SessionMetrics =
  elapsed_seconds :: int
  total_tokens :: json
  tokens_per_minute :: real
  tasks_completed :: json
  tasks_remaining :: int
  test_pass_rate :: real
  lines_of_code :: json
  test_coverage :: real
  checkpoint_count :: int
  errors_encountered :: int
  phase :: string
  session_status :: string

definition SessionMetrics_default :: SessionMetrics where
  "SessionMetrics_default = \<lparr>
     elapsed_seconds = 0, total_tokens = JInt 0, tokens_per_minute = 0,
     tasks_completed = JInt 0, tasks_remaining = 0, test_pass_rate = 0,
     lines_of_code = JInt 0, test_coverage = 0, checkpoint_count = 0,
     errors_encountered = 0, phase = ''bootstrap'', session_status = ''running'' \<rparr>"

text \<open>A file \<^verbatim>\<open>*.json\<close> of \<^verbatim>\<open>~/.selfware/checkpoints\<close> as the orchestrator sees it:
  \<open>mtime\<close> is \<^verbatim>\<open>None\<close> when \<^verbatim>\<open>os.path.getmtime\<close> raises (a dangling link), \<open>content\<close> is
  \<^verbatim>\<open>None\<close> when \<^verbatim>\<open>open\<close> or \<^verbatim>\<open>json.load\<close> raises.\<close>

record cp_file =
  stem :: string
  mtime :: "real option"
  content :: "json option"

text \<open>The dictionary \<^verbatim>\<open>checkpoint_data\<close> that \<^verbatim>\<open>create_checkpoint\<close> writes. The checkpoint
  \<^verbatim>\<open>checkpoint_N\<close> is identified by the number \<^verbatim>\<open>N = int(time.time())\<close>, also as the
  path \<^verbatim>\<open>checkpoints/checkpoint_N.json\<close> and as its stem.\<close>

record checkpoint_data =
  cd_id :: int
  cd_timestamp :: real
  cd_phase :: string
  cd_metrics :: SessionMetrics
  cd_git_commit :: "string option"

text \<open>An entry of \<^verbatim>\<open>metrics_history\<close>: \<^verbatim>\<open>{'timestamp': ..., 'metrics': asdict(metrics)}\<close>\<close>

record snapshot =
  snap_timestamp :: real
  snap_metrics :: SessionMetrics

text \<open>What the session does to the outside: the log lines of level INFO and above, the
  files it writes and the command it runs.\<close>

datatype event =
    LogSessionStart string
  | LogSignal
  | LogPhaseStart string int
  | LogPhaseComplete string
  | WriteCheckpoint checkpoint_data
  | LogCheckpointCreated int
  | LogHealthStale int
  | LogHealthMtimeError
  | LogHealthFailed
  | LogAttemptingRecovery
  | LogRestoring int
  | RunResume int
  | LogResumed int
  | LogResumeFailed int
  | LogRestoreError
  | LogRecoveryFailed
  | WriteSnapshot snapshot
  | LogSessionFailed pyexn
  | LogFinalizing
  | WriteReport "(string \<times> json) list"
  | LogSessionComplete string int int

text \<open>The world: the checkpoint directory at each time (\<^verbatim>\<open>None\<close> when it does not exist,
  otherwise its files in the order \<^verbatim>\<open>glob\<close> lists them), the exit status of
  \<^verbatim>\<open>selfware resume checkpoint_N\<close> run at a time (\<^verbatim>\<open>None\<close> when \<^verbatim>\<open>subprocess.run\<close> raises),
  the output of \<^verbatim>\<open>git rev-parse HEAD\<close>, and the time of the shutdown signal, if any.\<close>

record world =
  cp_dir_at :: "real \<Rightarrow> cp_file list option"
  resume_at :: "real \<Rightarrow> int \<Rightarrow> int option"
  git_commit_at :: "real \<Rightarrow> string option"
  shutdown_at :: "real option"

text \<open>\<^verbatim>\<open>MegaTestRunner\<close> with the objects it owns: \<open>last_checkpoint\<close> is
  \<^verbatim>\<open>checkpoint_mgr.last_checkpoint\<close>, \<open>metrics_history\<close> is \<^verbatim>\<open>monitor.metrics_history\<close>.\<close>

record runner =
  config :: TestConfig
  running :: bool
  current_phase :: string
  phase_start_time :: real
  metrics :: SessionMetrics
  last_checkpoint :: "int option"
  metrics_history :: "snapshot list"
  trace :: "event list"

definition emit :: "event list \<Rightarrow> runner \<Rightarrow> runner" where
  "emit evs s = s\<lparr>trace := trace s @ evs\<rparr>"

text \<open>\<^verbatim>\<open>MegaTestRunner.__init__\<close> at time \<open>now\<close>\<close>

definition runner_init :: "TestConfig \<Rightarrow> real \<Rightarrow> runner" where
  "runner_init cfg now = \<lparr>
     config = cfg, running = False, current_phase = ''bootstrap'', phase_start_time = now,
     metrics = SessionMetrics_default, last_checkpoint = None, metrics_history = [],
     trace = [] \<rparr>"

subsection \<open>Metrics Reporter\<close>

text \<open>\<^verbatim>\<open>TestMonitor.generate_report\<close>: the dictionary it returns, as the list of its items.
  \<^verbatim>\<open>history[-1]\<close> is the entry at index \<open>len - 1\<close>.\<close>

definition generate_report :: "snapshot list \<Rightarrow> (string \<times> json) list" where
  "generate_report history =
    (if history = [] then []
     else
       let first = history ! 0;
           last = history ! (length history - 1)
       in [(''duration_seconds'', JInt (elapsed_seconds (snap_metrics last))),
           (''total_tokens'', total_tokens (snap_metrics last)),
           (''final_coverage'', JFloat (test_coverage (snap_metrics last))),
           (''final_loc'', lines_of_code (snap_metrics last)),
           (''checkpoints'', JInt (int (length history))),
           (''errors'', JInt (errors_encountered (snap_metrics last))),
           (''status'', JStr (session_status (snap_metrics last)))])"

text \<open>\<^verbatim>\<open>TestMonitor.record_snapshot\<close>\<close>

definition record_snapshot :: "real \<Rightarrow> runner \<Rightarrow> runner" where
  "record_snapshot now s =
    (let snap = \<lparr>snap_timestamp = now, snap_metrics = metrics s\<rparr>
     in emit [WriteSnapshot snap] (s\<lparr>metrics_history := metrics_history s @ [snap]\<rparr>))"

subsection \<open>Reading the executor's checkpoints\<close>

text \<open>\<^verbatim>\<open>sorted(checkpoint_dir.glob("*.json"), key=os.path.getmtime, reverse=True)\<close>: the key
  is computed for every file, so one unreadable time raises; the sort is stable, also with
  \<^verbatim>\<open>reverse=True\<close>.\<close>

definition sorted_by_mtime :: "cp_file list \<Rightarrow> pyexn + cp_file list" where
  "sorted_by_mtime files =
    (if list_ex (\<lambda>f. mtime f = None) files then Inl OSError
     else Inr (sort_key (\<lambda>f. - the (mtime f)) files))"

text \<open>The body of the \<^verbatim>\<open>try\<close> of \<^verbatim>\<open>_update_metrics\<close> with its \<^verbatim>\<open>except Exception\<close>, for \<open>n\<close>
  files of which the latest has the given content. An exception ends the block and keeps
  the assignments made before it; the handler logs at level DEBUG, which the logger drops.\<close>

definition read_latest :: "nat \<Rightarrow> json option \<Rightarrow> SessionMetrics \<Rightarrow> SessionMetrics" where
  "read_latest n cont m =
    (case cont of
       None \<Rightarrow> m
     | Some data \<Rightarrow>
        (case dict_get data ''payload'' data of
           Inl e \<Rightarrow> m
         | Inr payload \<Rightarrow>
            (case dict_get payload ''estimated_tokens'' (JInt 0) of
               Inl e \<Rightarrow> m
             | Inr tokens \<Rightarrow>
                (let m1 = m\<lparr>total_tokens := tokens\<rparr> in
                 case dict_get payload ''current_step'' (JInt 0) of
                   Inl e \<Rightarrow> m1
                 | Inr step \<Rightarrow>
                    (let m2 = m1\<lparr>tasks_completed := step\<rparr>;
                         m3 = m2\<lparr>checkpoint_count := int n\<rparr>
                     in case dict_get payload ''errors'' (JArr []) of
                          Inl e \<Rightarrow> m3
                        | Inr errs \<Rightarrow>
                           (case py_len errs of
                              Inl e \<Rightarrow> m3
                            | Inr l \<Rightarrow>
                               (let m4 = m3\<lparr>errors_encountered := l\<rparr> in
                                case dict_get payload ''git_checkpoint'' JNull of
                                  Inl e \<Rightarrow> m4
                                | Inr git_info \<Rightarrow>
                                   (if py_truthy git_info
                                    then (case loc_estimate (tasks_completed m4) of
                                            Inl e \<Rightarrow> m4
                                          | Inr loc \<Rightarrow> m4\<lparr>lines_of_code := loc\<rparr>)
                                    else m4))))))))"

text \<open>\<^verbatim>\<open>MegaTestRunner._update_metrics\<close>\<close>

definition update_metrics :: "world \<Rightarrow> real \<Rightarrow> runner \<Rightarrow> (pyexn + unit) \<times> runner" where
  "update_metrics w now s =
    (let elapsed = now - phase_start_time s;
         s1 = s\<lparr>metrics := (metrics s)\<lparr>elapsed_seconds := py_int elapsed,
                                       phase := current_phase s\<rparr>\<rparr>
     in case cp_dir_at w now of
          None \<Rightarrow> (Inr (), s1)
        | Some files \<Rightarrow>
           (case sorted_by_mtime files of
              Inl e \<Rightarrow> (Inl e, s1)
            | Inr [] \<Rightarrow> (Inr (), s1)
            | Inr (latest # rest) \<Rightarrow>
               (let s2 = s1\<lparr>metrics :=
                          read_latest (length (latest # rest)) (content latest) (metrics s1)\<rparr>
                in if elapsed > 0
                   then (case py_truediv (total_tokens (metrics s2)) (elapsed / 60) of
                           Inl e \<Rightarrow> (Inl e, s2)
                         | Inr rate \<Rightarrow>
                            (Inr (), s2\<lparr>metrics := (metrics s2)\<lparr>tokens_per_minute := rate\<rparr>\<rparr>))
                   else (Inr (), s2))))"

subsection \<open>Health Monitor\<close>

text \<open>\<^verbatim>\<open>MegaTestRunner._health_check\<close> on the directory as it is at time \<open>now\<close>: the result
  and the lines it logs.\<close>

definition health_check :: "cp_file list option \<Rightarrow> real \<Rightarrow> (pyexn + bool) \<times> event list" where
  "health_check dir now =
    (case dir of
       None \<Rightarrow> (Inr True, [])
     | Some files \<Rightarrow>
        (case sorted_by_mtime files of
           Inl e \<Rightarrow> (Inl e, [])
         | Inr [] \<Rightarrow> (Inr True, [])
         | Inr (latest # rest) \<Rightarrow>
            (case mtime latest of
               None \<Rightarrow> (Inr False, [LogHealthMtimeError])
             | Some t \<Rightarrow>
                (if now - t > 300 then (Inr False, [LogHealthStale (py_int (now - t))])
                 else (Inr True, [])))))"

subsection \<open>Checkpoint events and recovery\<close>

text \<open>\<^verbatim>\<open>CheckpointManager.create_checkpoint\<close>\<close>

definition mgr_create_checkpoint :: "world \<Rightarrow> real \<Rightarrow> runner \<Rightarrow> int \<times> runner" where
  "mgr_create_checkpoint w now s =
    (let cid = py_int now;
         data = \<lparr>cd_id = cid, cd_timestamp = now, cd_phase = current_phase s,
                 cd_metrics = metrics s, cd_git_commit = git_commit_at w now\<rparr>;
         s1 = emit [WriteCheckpoint data] s;
         s2 = s1\<lparr>last_checkpoint := Some cid\<rparr>
     in (cid, emit [LogCheckpointCreated cid] s2))"

text \<open>\<^verbatim>\<open>MegaTestRunner._create_checkpoint\<close>\<close>

definition create_checkpoint :: "world \<Rightarrow> real \<Rightarrow> runner \<Rightarrow> runner" where
  "create_checkpoint w now s =
    (case mgr_create_checkpoint w now s of
       (cid, s1) \<Rightarrow>
         emit [LogCheckpointCreated cid]
           (s1\<lparr>metrics := (metrics s1)\<lparr>checkpoint_count := checkpoint_count (metrics s1) + 1\<rparr>\<rparr>))"

text \<open>\<^verbatim>\<open>CheckpointManager.restore_checkpoint\<close>: \<open>RunResume\<close> is the call of
  \<^verbatim>\<open>subprocess.run(['selfware', 'resume', task_id])\<close>.\<close>

definition restore_checkpoint :: "world \<Rightarrow> real \<Rightarrow> int \<Rightarrow> runner \<Rightarrow> bool \<times> runner" where
  "restore_checkpoint w now cp s =
    (let s1 = emit [LogRestoring cp, RunResume cp] s
     in case resume_at w now cp of
          None \<Rightarrow> (False, emit [LogRestoreError] s1)
        | Some returncode \<Rightarrow>
           (if returncode = 0 then (True, emit [LogResumed cp] s1)
            else (False, emit [LogResumeFailed cp] s1)))"

text \<open>\<^verbatim>\<open>MegaTestRunner._attempt_recovery\<close>. A \<^verbatim>\<open>Path\<close> is always true in \<^verbatim>\<open>if\<close>, so the test
  is whether \<^verbatim>\<open>last_checkpoint\<close> is \<^verbatim>\<open>None\<close>.\<close>

definition attempt_recovery :: "world \<Rightarrow> real \<Rightarrow> runner \<Rightarrow> bool \<times> runner" where
  "attempt_recovery w now s =
    (let s1 = emit [LogAttemptingRecovery] s
     in case last_checkpoint s1 of
          Some cp \<Rightarrow> restore_checkpoint w now cp s1
        | None \<Rightarrow> (False, s1))"

subsection \<open>The phase loop\<close>

text \<open>How one pass through the body of the \<^verbatim>\<open>while\<close> of \<^verbatim>\<open>_run_phase\<close> ends: at its last
  line, with the local \<^verbatim>\<open>last_checkpoint\<close> time; at \<^verbatim>\<open>return False\<close>; or with an exception.\<close>

datatype step = Continue real | Return bool | Raise pyexn

definition phase_iteration :: "world \<Rightarrow> real \<Rightarrow> real \<Rightarrow> runner \<Rightarrow> step \<times> runner" where
  "phase_iteration w now last_cp s =
    (case update_metrics w now s of
       (Inl e, s1) \<Rightarrow> (Raise e, s1)
     | (Inr u, s1) \<Rightarrow>
        (let checkpoint_interval = checkpoint_interval_min (config s1) * 60;
             due = (now - last_cp \<ge> real_of_int checkpoint_interval);
             s2 = (if due then create_checkpoint w now s1 else s1);
             last_cp' = (if due then now else last_cp)
         in case health_check (cp_dir_at w now) now of
              (Inl e, evs) \<Rightarrow> (Raise e, emit evs s2)
            | (Inr True, evs) \<Rightarrow> (Continue last_cp', record_snapshot now (emit evs s2))
            | (Inr False, evs) \<Rightarrow>
               (case attempt_recovery w now (emit (evs @ [LogHealthFailed]) s2) of
                  (True, s3) \<Rightarrow> (Continue last_cp', record_snapshot now s3)
                | (False, s3) \<Rightarrow> (Return False, emit [LogRecoveryFailed] s3))))"

text \<open>\<^verbatim>\<open>time.sleep(30)\<close> from time \<open>now\<close>: a signal that arrives meanwhile runs
  \<^verbatim>\<open>_signal_handler\<close>.\<close>

definition sleep :: "world \<Rightarrow> real \<Rightarrow> runner \<Rightarrow> runner" where
  "sleep w now s =
    (case shutdown_at w of
       None \<Rightarrow> s
     | Some ts \<Rightarrow>
        (if now < ts \<and> ts \<le> now + 30 then emit [LogSignal] (s\<lparr>running := False\<rparr>) else s))"

text \<open>The \<^verbatim>\<open>while\<close> loop of \<^verbatim>\<open>_run_phase\<close> and the two lines after it. The result is what
  \<^verbatim>\<open>_run_phase\<close> returns or raises, the time at which it does, and the state.\<close>

function phase_loop ::
  "world \<Rightarrow> real \<Rightarrow> real \<Rightarrow> real \<Rightarrow> runner \<Rightarrow> (pyexn + bool) \<times> real \<times> runner" where
  "phase_loop w phase_end last_cp now s =
    (if running s \<and> now < phase_end
     then (case phase_iteration w now last_cp s of
             (Continue last_cp', s') \<Rightarrow>
               phase_loop w phase_end last_cp' (now + 30) (sleep w now s')
           | (Return b, s') \<Rightarrow> (Inr b, now, s')
           | (Raise e, s') \<Rightarrow> (Inl e, now, s'))
     else (Inr True, now, emit [LogPhaseComplete (current_phase s)] s))"
  by pat_completeness auto
termination
proof (relation "measure (\<lambda>(w, phase_end, last_cp, now, s). nat \<lceil>(phase_end - now) / 30\<rceil>)")
  show "wf (measure (\<lambda>(w, phase_end, last_cp, now, s). nat \<lceil>(phase_end - now) / 30\<rceil>))"
    by simp
next
  fix w :: world and phase_end last_cp now :: real and s :: runner
    and x :: "step \<times> runner" and x1 :: step and s' :: runner and last_cp' :: real
  assume "running s \<and> now < phase_end"
  then have pos: "0 < (phase_end - now) / 30" by simp
  have "\<lceil>(phase_end - (now + 30)) / 30\<rceil> = \<lceil>(phase_end - now) / 30 - 1\<rceil>"
    by (simp add: field_simps)
  also have "\<dots> = \<lceil>(phase_end - now) / 30\<rceil> - 1" by simp
  finally have "\<lceil>(phase_end - (now + 30)) / 30\<rceil> < \<lceil>(phase_end - now) / 30\<rceil>" by simp
  moreover from pos have "0 < \<lceil>(phase_end - now) / 30\<rceil>" by simp
  ultimately show "((w, phase_end, last_cp', now + 30, sleep w now s'),
      (w, phase_end, last_cp, now, s))
    \<in> measure (\<lambda>(w, phase_end, last_cp, now, s). nat \<lceil>(phase_end - now) / 30\<rceil>)"
    by simp
qed

declare phase_loop.simps [simp del]


subsection \<open>The session\<close>






subsection \<open>Observations and examples\<close>

text \<open>Two checkpoint files of the executor, neither of which can be parsed.\<close>

definition file_a :: cp_file where
  "file_a = \<lparr>stem = ''task_a'', mtime = Some 500, content = None\<rparr>"

definition file_b :: cp_file where
  "file_b = \<lparr>stem = ''task_b'', mtime = Some 701, content = None\<rparr>"

text \<open>A file written five seconds before time 1000, and a dangling link \<^verbatim>\<open>*.json\<close>, whose
  modification time cannot be read (\<^verbatim>\<open>os.path.getmtime\<close> raises \<^verbatim>\<open>FileNotFoundError\<close>, an
  \<^verbatim>\<open>OSError\<close>).\<close>

definition fresh_file :: cp_file where
  "fresh_file = \<lparr>stem = ''task_c'', mtime = Some 995, content = Some (JObj [])\<rparr>"

definition dangling_link :: cp_file where
  "dangling_link = \<lparr>stem = ''task_d'', mtime = None, content = None\<rparr>"

text \<open>A history of two snapshots.\<close>

definition example_history :: "snapshot list" where
  "example_history =
    [\<lparr>snap_timestamp = 10, snap_metrics = SessionMetrics_default\<rparr>,
     \<lparr>snap_timestamp = 40,
      snap_metrics = SessionMetrics_default\<lparr>elapsed_seconds := 30, total_tokens := JInt 1200,
        errors_encountered := 2, session_status := ''completed''\<rparr>\<rparr>]"

text \<open>What a trace shows: the calls of the external resume command, the number of calls
  of \<^verbatim>\<open>_attempt_recovery\<close> (each logs "Attempting recovery..." first), and the number of
  passes in which \<^verbatim>\<open>_run_phase\<close> found the health check false (each logs "Health check
  failed, attempting recovery...").\<close>

fun is_resume :: "event \<Rightarrow> bool" where
  "is_resume (RunResume cp) = True"
| "is_resume _ = False"

definition resume_calls :: "runner \<Rightarrow> event list" where
  "resume_calls s = filter is_resume (trace s)"

definition recovery_attempts :: "runner \<Rightarrow> nat" where
  "recovery_attempts s = count_list (trace s) LogAttemptingRecovery"

definition unhealthy_ticks :: "runner \<Rightarrow> nat" where
  "unhealthy_ticks s = count_list (trace s) LogHealthFailed"

text \<open>Whether \<^verbatim>\<open>selfware resume\<close> for the checkpoint reference, run at time \<open>now\<close>, exits
  with status zero; there is nothing to run without a reference.\<close>

definition resume_succeeds :: "world \<Rightarrow> real \<Rightarrow> int option \<Rightarrow> bool" where
  "resume_succeeds w now cp =
    (case cp of None \<Rightarrow> False | Some c \<Rightarrow> resume_at w now c = Some 0)"

text \<open>The test \<^verbatim>\<open>time.time() - last_checkpoint >= checkpoint_interval\<close> of \<^verbatim>\<open>_run_phase\<close>\<close>

definition checkpoint_due :: "runner \<Rightarrow> real \<Rightarrow> real \<Rightarrow> bool" where
  "checkpoint_due s now last_cp =
    (now - last_cp \<ge> real_of_int (checkpoint_interval_min (config s) * 60))"






text \<open>Example worlds. In \<open>stalled_world\<close> the executor's latest file was written at time
  701 and the resume command fails; in \<open>resumable_world\<close> it succeeds; in \<open>quiet_world\<close>
  the executor never writes a checkpoint; in \<open>busy_world\<close> it has just written a
  well-formed one at every time.\<close>

definition default_config :: TestConfig where
  "default_config = \<lparr>session_id = ''abcd1234'', project_type = ''task_queue'',
     duration_hours = 6, agent_count = 6, checkpoint_interval_min = 10\<rparr>"

definition stalled_world :: world where
  "stalled_world = \<lparr>cp_dir_at = (\<lambda>t. Some [file_a, file_b]), resume_at = (\<lambda>t cp. Some 1),
     git_commit_at = (\<lambda>t. None), shutdown_at = None\<rparr>"





text \<open>A runner constructed at time 1000 whose \<^verbatim>\<open>run\<close> has set \<^verbatim>\<open>running\<close>; the second one
  has created the checkpoint \<^verbatim>\<open>checkpoint_990\<close>.\<close>

definition started :: runner where
  "started = (runner_init default_config 1000)\<lparr>running := True\<rparr>"


section \<open>Properties of the checkpoint deltas\<close>

lemma new_suffix_drop: "new_suffix cur base = drop (length base) cur"
  by (simp add: new_suffix_def)

lemma new_suffix_prefix: "prefix base cur \<Longrightarrow> base @ new_suffix cur base = cur"
  by (auto simp: new_suffix_drop prefix_def)

text \<open>
  Claim C3. \<^verbatim>\<open>compute_delta(current, base)\<close> returns no delta exactly when the two task ids
  differ. When they agree it returns a delta in which every \<open>new_*\<close> field is the part of the
  current sequence that lies beyond the length of the base sequence; the number of new
  messages is therefore \<open>max 0 (len current - len base)\<close>, computed over the integers.
\<close>

theorem compute_delta_spec:
  "(compute_delta cur base = None \<longleftrightarrow> task_id cur \<noteq> task_id base) \<and>
   (task_id cur = task_id base \<longrightarrow>
     (\<exists>d. compute_delta cur base = Some d \<and>
       new_messages d = drop (length (messages base)) (messages cur) \<and>
       new_memory_entries d = drop (length (memory_entries base)) (memory_entries cur) \<and>
       new_tool_calls d = drop (length (tool_calls base)) (tool_calls cur) \<and>
       new_errors d = drop (length (errors base)) (errors cur) \<and>
       int (length (new_messages d)) =
         max 0 (int (length (messages cur)) - int (length (messages base)))))"
  by (auto simp: compute_delta_def new_suffix_drop)

theorem compute_delta_spec_witness:
  "task_id example_later = task_id example_base \<and>
   compute_delta example_later example_base \<noteq> None \<and>
   compute_delta example_other_task example_base = None \<and>
   new_messages (the (compute_delta example_later example_base)) = [''m4''] \<and>
   new_messages (the (compute_delta example_base example_later)) = []"
  using compute_delta_spec [of example_later example_base]
    compute_delta_spec [of example_other_task example_base]
    compute_delta_spec [of example_base example_later]
  by (auto simp: example_later_def example_base_def example_other_task_def)

text \<open>
  Claim C1, as stated, fails: a later checkpoint of the same task whose sequences extend
  the base's, and whose version-control marker is absent while the base has one, is not
  reproduced. \<^verbatim>\<open>compute_delta\<close> stores \<^verbatim>\<open>self.git_checkpoint.clone()\<close>, which is \<^verbatim>\<open>None\<close>
  here, and \<^verbatim>\<open>apply_delta\<close> reads \<^verbatim>\<open>None\<close> as "unchanged": the base's marker survives.
\<close>

theorem apply_delta_roundtrip_counterexample:
  "task_id example_git_cleared = task_id example_base \<and>
   prefix (messages example_base) (messages example_git_cleared) \<and>
   prefix (memory_entries example_base) (memory_entries example_git_cleared) \<and>
   prefix (tool_calls example_base) (tool_calls example_git_cleared) \<and>
   prefix (errors example_base) (errors example_git_cleared) \<and>
   git_checkpoint example_git_cleared = None \<and>
   apply_delta example_base (the (compute_delta example_git_cleared example_base))
     = (Inr (), example_git_cleared\<lparr>git_checkpoint := Some ''abc123''\<rparr>) \<and>
   apply_delta example_base (the (compute_delta example_git_cleared example_base))
     \<noteq> (Inr (), example_git_cleared)"
  by (simp add: example_git_cleared_def example_later_def example_base_def
      compute_delta_def apply_delta_def new_suffix_def)

text \<open>
  Claim C1, amended. For a checkpoint \<open>c\<close> and a checkpoint \<open>c'\<close> of the same task whose four
  sequences are prefix-extensions of those of \<open>c\<close>, and whose version-control marker is
  present unless that of \<open>c\<close> is absent too, \<^verbatim>\<open>compute_delta(c', c)\<close> returns a delta and
  applying it to \<open>c\<close> succeeds and leaves exactly \<open>c'\<close>.
\<close>

theorem apply_delta_roundtrip:
  assumes "task_id c' = task_id c"
    and "prefix (messages c) (messages c')"
    and "prefix (memory_entries c) (memory_entries c')"
    and "prefix (tool_calls c) (tool_calls c')"
    and "prefix (errors c) (errors c')"
    and "git_checkpoint c' = None \<Longrightarrow> git_checkpoint c = None"
  shows "\<exists>d. compute_delta c' c = Some d \<and> apply_delta c d = (Inr (), c')"
  using assms
  by (cases "git_checkpoint c'")
     (auto simp: compute_delta_def apply_delta_def Let_def new_suffix_prefix)

theorem apply_delta_roundtrip_witness:
  "task_id example_later = task_id example_base \<and>
   prefix (messages example_base) (messages example_later) \<and>
   apply_delta example_base (the (compute_delta example_later example_base))
     = (Inr (), example_later)"
  using apply_delta_roundtrip [of example_later example_base]
  by (auto simp: example_later_def example_base_def)

text \<open>
  Claim C2. \<^verbatim>\<open>apply_delta(target, delta)\<close> returns the task-mismatch error exactly when the
  task ids differ. Otherwise it succeeds; the version is the delta's target version, the
  timestamp is the delta's, each sequence is the old one followed by the delta's new
  entries, and each scalar is overwritten only when the delta's optional holds a value.
  The witness is scenario C: version 3 with messages m1, m2, m3 and a delta to version 4
  with the new message m4.
\<close>

theorem apply_delta_spec:
  "(fst (apply_delta target delta) = Inl TaskMismatch
      \<longleftrightarrow> task_id target \<noteq> delta_task_id delta) \<and>
   (task_id target = delta_task_id delta \<longrightarrow>
     (\<exists>t'. apply_delta target delta = (Inr (), t') \<and>
       task_id t' = task_id target \<and>
       version t' = target_version delta \<and>
       updated_at t' = delta_updated_at delta \<and>
       messages t' = messages target @ new_messages delta \<and>
       memory_entries t' = memory_entries target @ new_memory_entries delta \<and>
       tool_calls t' = tool_calls target @ new_tool_calls delta \<and>
       errors t' = errors target @ new_errors delta \<and>
       status t' = (case delta_status delta of Some v \<Rightarrow> v | None \<Rightarrow> status target) \<and>
       current_step t' =
         (case delta_current_step delta of Some v \<Rightarrow> v | None \<Rightarrow> current_step target) \<and>
       current_iteration t' =
         (case delta_current_iteration delta of
            Some v \<Rightarrow> v | None \<Rightarrow> current_iteration target) \<and>
       estimated_tokens t' =
         (case updated_tokens delta of Some v \<Rightarrow> v | None \<Rightarrow> estimated_tokens target) \<and>
       git_checkpoint t' =
         (case delta_git_checkpoint delta of
            Some v \<Rightarrow> Some v | None \<Rightarrow> git_checkpoint target)))"
  by (simp add: apply_delta_def Let_def split: option.splits)

theorem apply_delta_spec_witness:
  "task_id example_base = delta_task_id scenario_delta \<and>
   version example_base = 3 \<and> messages example_base = [''m1'', ''m2'', ''m3''] \<and>
   target_version scenario_delta = 4 \<and> new_messages scenario_delta = [''m4''] \<and>
   fst (apply_delta example_base scenario_delta) = Inr () \<and>
   version (snd (apply_delta example_base scenario_delta)) = 4 \<and>
   messages (snd (apply_delta example_base scenario_delta)) = [''m1'', ''m2'', ''m3'', ''m4''] \<and>
   updated_at (snd (apply_delta example_base scenario_delta)) = 160 \<and>
   status (snd (apply_delta example_base scenario_delta)) = Running"
  using apply_delta_spec [of example_base scenario_delta]
  by (auto simp: example_base_def scenario_delta_def)

text \<open>
  Claim C9. When the task ids differ, \<^verbatim>\<open>apply_delta\<close> returns the error and the target
  checkpoint is, field for field, the one it was given: the comparison of the ids comes
  before every assignment.
\<close>

theorem apply_delta_atomic:
  "task_id target \<noteq> delta_task_id delta \<Longrightarrow>
   apply_delta target delta = (Inl TaskMismatch, target)"
  by (simp add: apply_delta_def)

theorem apply_delta_atomic_witness:
  "task_id example_other_task \<noteq> delta_task_id scenario_delta \<and>
   apply_delta example_other_task scenario_delta = (Inl TaskMismatch, example_other_task)"
  using apply_delta_atomic [of example_other_task scenario_delta]
  by (simp add: example_other_task_def example_later_def scenario_delta_def)

section \<open>Properties of the orchestrator\<close>

lemma float_limit_examples [simp]:
  "0 < float_limit" "1200 < float_limit"
  by (simp_all add: float_limit_def)

lemma py_truediv_overflow:
  "py_truediv (JInt (10 ^ 400)) d = Inl OverflowError"
  by (simp add: float_limit_def)

subsection \<open>Health Monitor\<close>

lemma hd_sort_key_least:
  assumes "xs \<noteq> []"
  shows "hd (sort_key f xs) \<in> set xs \<and> (\<forall>x\<in>set xs. f (hd (sort_key f xs)) \<le> f x)"
proof -
  obtain y ys where ys: "sort_key f xs = y # ys"
    using assms by (cases "sort_key f xs") (auto dest: arg_cong [where f = set])
  have "sorted (map f (y # ys))" using sorted_sort_key [of f xs] ys by simp
  then have "\<forall>x\<in>set (y # ys). f y \<le> f x" by auto
  moreover have "set (y # ys) = set xs" using ys set_sort [of f xs] by simp
  ultimately show ?thesis using ys by auto
qed

lemma sorted_by_mtime_latest:
  assumes "files \<noteq> []" and "\<forall>f\<in>set files. mtime f \<noteq> None"
  shows "\<exists>latest rest. sorted_by_mtime files = Inr (latest # rest) \<and>
           length (latest # rest) = length files \<and> latest \<in> set files \<and>
           the (mtime latest) = Max ((the \<circ> mtime) ` set files)"
proof -
  let ?k = "\<lambda>f. - the (mtime f)"
  obtain y ys where ys: "sort_key ?k files = y # ys"
    using assms(1) by (cases "sort_key ?k files") (auto dest: arg_cong [where f = set])
  have hd: "y \<in> set files \<and> (\<forall>x\<in>set files. ?k y \<le> ?k x)"
    using hd_sort_key_least [OF assms(1), of ?k] ys by simp
  have "Max ((the \<circ> mtime) ` set files) = the (mtime y)"
    using hd by (intro Max_eqI) auto
  moreover have "sorted_by_mtime files = Inr (y # ys)"
    using assms(2) ys by (auto simp: sorted_by_mtime_def list_ex_iff)
  moreover have "length (y # ys) = length files"
    using ys length_sort [of ?k files] by simp
  ultimately show ?thesis using hd by auto
qed

text \<open>
  Where the modification time of every file can be read, the health check is the one
  the specification describes: healthy when the checkpoint directory does not exist or
  holds no checkpoint file, and otherwise healthy exactly when the time since the latest
  modification is at most 300 seconds. In the example the latest file was modified at
  time 701: at time 1000 (age 299) the check is healthy, at time 1002 (age 301) it is not.
\<close>

lemma health_check_readable:
  "fst (health_check None now) = Inr True \<and>
   fst (health_check (Some []) now) = Inr True \<and>
   (files \<noteq> [] \<and> (\<forall>f\<in>set files. mtime f \<noteq> None) \<longrightarrow>
      fst (health_check (Some files) now)
        = Inr (now - Max ((the \<circ> mtime) ` set files) \<le> 300))"
proof (intro conjI impI)
  show "fst (health_check None now) = Inr True" by (simp add: health_check_def)
  show "fst (health_check (Some []) now) = Inr True"
    by (simp add: health_check_def sorted_by_mtime_def)
next
  assume a: "files \<noteq> [] \<and> (\<forall>f\<in>set files. mtime f \<noteq> None)"
  then obtain latest rest where l: "sorted_by_mtime files = Inr (latest # rest)"
      "latest \<in> set files" "the (mtime latest) = Max ((the \<circ> mtime) ` set files)"
    using sorted_by_mtime_latest [of files] by blast
  from a l(2) obtain t where t: "mtime latest = Some t" by auto
  show "fst (health_check (Some files) now)
        = Inr (now - Max ((the \<circ> mtime) ` set files) \<le> 300)"
    using l t by (auto simp: health_check_def)
qed

lemma health_check_boundary:
  "fst (health_check (Some [file_a, file_b]) 1000) = Inr True \<and>
   fst (health_check (Some [file_a, file_b]) 1002) = Inr False"
  using health_check_readable [of 1000 "[file_a, file_b]"]
    health_check_readable [of 1002 "[file_a, file_b]"]
  by (simp add: file_a_def file_b_def)

text \<open>
  Claim C4 says that the health check returns healthy exactly when the most recently
  modified checkpoint file is at most 300 seconds old. The code does not do so when a
  modification time cannot be read. At time 1000 the directory holds a file modified at
  time 995 and a dangling link. The file alone is healthy; with the link beside it
  \<^verbatim>\<open>sorted(..., key=os.path.getmtime)\<close> raises, and as the call stands before the \<^verbatim>\<open>try\<close>
  whose handler answers an unreadable time with \<^verbatim>\<open>False\<close>, the exception leaves
  \<^verbatim>\<open>_health_check\<close>: the check returns neither healthy nor unhealthy.
\<close>

theorem health_check_unreadable_mtime:
  "fst (health_check (Some [fresh_file]) 1000) = Inr True \<and>
   health_check (Some [fresh_file, dangling_link]) 1000 = (Inl OSError, []) \<and>
   health_check (Some [dangling_link]) 1000 = (Inl OSError, [])"
  by (simp add: health_check_def sorted_by_mtime_def fresh_file_def dangling_link_def)

subsection \<open>Metrics Reporter\<close>

text \<open>
  Claim C8. For an empty history \<^verbatim>\<open>generate_report\<close> returns the empty dictionary; the
  function has no path that raises. For a history that is not empty the report's
  \<^verbatim>\<open>checkpoints\<close> is the length of the history, and the six other fields are those of the
  last entry. (The first entry is read and then not used, so the report is in particular
  determined by the first entry, the last entry and the length.)
\<close>

theorem generate_report_spec:
  "generate_report [] = [] \<and>
   (history \<noteq> [] \<longrightarrow>
      generate_report history =
        [(''duration_seconds'', JInt (elapsed_seconds (snap_metrics (last history)))),
         (''total_tokens'', total_tokens (snap_metrics (last history))),
         (''final_coverage'', JFloat (test_coverage (snap_metrics (last history)))),
         (''final_loc'', lines_of_code (snap_metrics (last history))),
         (''checkpoints'', JInt (int (length history))),
         (''errors'', JInt (errors_encountered (snap_metrics (last history)))),
         (''status'', JStr (session_status (snap_metrics (last history))))])"
  by (simp add: generate_report_def Let_def last_conv_nth)

theorem generate_report_spec_witness:
  "example_history \<noteq> [] \<and>
   generate_report example_history =
     [(''duration_seconds'', JInt 30), (''total_tokens'', JInt 1200),
      (''final_coverage'', JFloat 0), (''final_loc'', JInt 0),
      (''checkpoints'', JInt 2), (''errors'', JInt 2), (''status'', JStr ''completed'')]"
  using generate_report_spec [of example_history]
  by (simp add: example_history_def SessionMetrics_default_def)

subsection \<open>Frame lemmas\<close>

lemma emit_fields [simp]:
  "trace (emit evs s) = trace s @ evs"
  "running (emit evs s) = running s"
  "metrics (emit evs s) = metrics s"
  "config (emit evs s) = config s"
  "last_checkpoint (emit evs s) = last_checkpoint s"
  "metrics_history (emit evs s) = metrics_history s"
  "current_phase (emit evs s) = current_phase s"
  "phase_start_time (emit evs s) = phase_start_time s"
  by (simp_all add: emit_def)

lemma update_metrics_frame:
  assumes "update_metrics w now s = (r, s')"
  shows "trace s' = trace s \<and> running s' = running s \<and> config s' = config s \<and>
         last_checkpoint s' = last_checkpoint s \<and> metrics_history s' = metrics_history s \<and>
         current_phase s' = current_phase s \<and> phase_start_time s' = phase_start_time s"
  using assms
  by (auto simp: update_metrics_def Let_def
      split: option.splits sum.splits list.splits if_splits)

lemma health_check_events:
  "count_list (snd (health_check dir now)) LogAttemptingRecovery = 0 \<and>
   count_list (snd (health_check dir now)) LogHealthFailed = 0 \<and>
   filter is_resume (snd (health_check dir now)) = []"
  by (simp add: health_check_def split: option.splits sum.splits list.splits)

lemma create_checkpoint_fields:
  "trace (create_checkpoint w now s) =
     trace s @ [WriteCheckpoint \<lparr>cd_id = py_int now, cd_timestamp = now,
                  cd_phase = current_phase s, cd_metrics = metrics s,
                  cd_git_commit = git_commit_at w now\<rparr>,
                LogCheckpointCreated (py_int now), LogCheckpointCreated (py_int now)]"
  "last_checkpoint (create_checkpoint w now s) = Some (py_int now)"
  "running (create_checkpoint w now s) = running s"
  "config (create_checkpoint w now s) = config s"
  "metrics (create_checkpoint w now s) =
     (metrics s)\<lparr>checkpoint_count := checkpoint_count (metrics s) + 1\<rparr>"
  "metrics_history (create_checkpoint w now s) = metrics_history s"
  by (simp_all add: create_checkpoint_def mgr_create_checkpoint_def Let_def)

lemma record_snapshot_fields:
  "trace (record_snapshot now s) =
     trace s @ [WriteSnapshot \<lparr>snap_timestamp = now, snap_metrics = metrics s\<rparr>]"
  "last_checkpoint (record_snapshot now s) = last_checkpoint s"
  "running (record_snapshot now s) = running s"
  "config (record_snapshot now s) = config s"
  "metrics (record_snapshot now s) = metrics s"
  by (simp_all add: record_snapshot_def Let_def)

subsection \<open>Recovery\<close>

lemma attempt_recovery_result:
  "fst (attempt_recovery w now s) = resume_succeeds w now (last_checkpoint s)"
  by (simp add: attempt_recovery_def restore_checkpoint_def resume_succeeds_def Let_def
      split: option.splits)

lemma attempt_recovery_counts:
  "recovery_attempts (snd (attempt_recovery w now s)) = recovery_attempts s + 1 \<and>
   unhealthy_ticks (snd (attempt_recovery w now s)) = unhealthy_ticks s"
  by (simp add: attempt_recovery_def restore_checkpoint_def Let_def recovery_attempts_def
      unhealthy_ticks_def split: option.splits)


lemma phase_iteration_unhealthy:
  assumes "fst (update_metrics w now s) = Inr ()"
    and "fst (health_check (cp_dir_at w now) now) = Inr False"
  shows "\<exists>s'. phase_iteration w now last_cp s =
           (if resume_succeeds w now
                 (if checkpoint_due s now last_cp then Some (py_int now) else last_checkpoint s)
            then Continue (if checkpoint_due s now last_cp then now else last_cp)
            else Return False, s') \<and>
           recovery_attempts s' = recovery_attempts s + 1 \<and>
           (\<not> checkpoint_due s now last_cp \<and> last_checkpoint s = None
              \<longrightarrow> resume_calls s' = resume_calls s)"
proof -
  obtain s1 where u: "update_metrics w now s = (Inr (), s1)"
    using assms(1) by (cases "update_metrics w now s") auto
  obtain evs where h: "health_check (cp_dir_at w now) now = (Inr False, evs)"
    using assms(2) by (cases "health_check (cp_dir_at w now) now") auto
  have e: "count_list evs LogAttemptingRecovery = 0" "filter is_resume evs = []"
    using health_check_events [of "cp_dir_at w now" now] h by simp_all
  define s2 where "s2 = (if checkpoint_due s now last_cp then create_checkpoint w now s1 else s1)"
  define s3 where "s3 = emit (evs @ [LogHealthFailed]) s2"
  have f: "trace s1 = trace s" "config s1 = config s" "last_checkpoint s1 = last_checkpoint s"
    using update_metrics_frame [OF u] by simp_all
  have lc: "last_checkpoint s3 =
      (if checkpoint_due s now last_cp then Some (py_int now) else last_checkpoint s)"
    by (simp add: s3_def s2_def f create_checkpoint_fields)
  have ra: "recovery_attempts s3 = recovery_attempts s"
    by (simp add: s3_def s2_def f e recovery_attempts_def create_checkpoint_fields)
  have rc: "resume_calls s3 = resume_calls s"
    by (simp add: s3_def s2_def f e resume_calls_def create_checkpoint_fields)
  obtain ok s4 where a: "attempt_recovery w now s3 = (ok, s4)"
    by (cases "attempt_recovery w now s3") auto
  have ok: "ok = resume_succeeds w now (last_checkpoint s3)"
    using attempt_recovery_result [of w now s3] a by simp
  have cnt: "recovery_attempts s4 = recovery_attempts s + 1"
    using attempt_recovery_counts [of w now s3] a ra by simp
  have none: "resume_calls s4 = resume_calls s"
    if "\<not> checkpoint_due s now last_cp" "last_checkpoint s = None"
    using that a rc lc by (auto simp: attempt_recovery_def Let_def resume_calls_def)
  have pi: "phase_iteration w now last_cp s =
      (if ok then (Continue (if checkpoint_due s now last_cp then now else last_cp),
                   record_snapshot now s4)
       else (Return False, emit [LogRecoveryFailed] s4))"
    using a by (simp add: phase_iteration_def u h Let_def checkpoint_due_def f
        s3_def s2_def)
  show ?thesis
    using cnt none
    by (auto simp: pi ok lc recovery_attempts_def resume_calls_def record_snapshot_fields)
qed


text \<open>
  Claim C10. While the orchestrator has created no checkpoint of its own
  (\<^verbatim>\<open>last_checkpoint\<close> is \<^verbatim>\<open>None\<close>), \<^verbatim>\<open>_attempt_recovery\<close> returns \<^verbatim>\<open>False\<close> and runs no
  resume command. So a pass of the phase loop that finds the health check false in that
  state, without a checkpoint falling due in the same pass, ends \<^verbatim>\<open>_run_phase\<close> with
  \<^verbatim>\<open>False\<close>, and the trace holds no resume call that it did not hold before.
\<close>

theorem recovery_without_checkpoint:
  "(last_checkpoint s = None \<longrightarrow>
      attempt_recovery w now s = (False, emit [LogAttemptingRecovery] s) \<and>
      resume_calls (snd (attempt_recovery w now s)) = resume_calls s) \<and>
   (running s \<and> now < phase_end \<and>
    fst (update_metrics w now s) = Inr () \<and>
    fst (health_check (cp_dir_at w now) now) = Inr False \<and>
    last_checkpoint s = None \<and> \<not> checkpoint_due s now last_cp \<longrightarrow>
      (\<exists>s'. phase_loop w phase_end last_cp now s = (Inr False, now, s') \<and>
            resume_calls s' = resume_calls s))"
proof (intro conjI impI)
  assume "last_checkpoint s = None"
  then show "attempt_recovery w now s = (False, emit [LogAttemptingRecovery] s)"
    and "resume_calls (snd (attempt_recovery w now s)) = resume_calls s"
    by (simp_all add: attempt_recovery_def Let_def resume_calls_def)
next
  assume a: "running s \<and> now < phase_end \<and>
    fst (update_metrics w now s) = Inr () \<and>
    fst (health_check (cp_dir_at w now) now) = Inr False \<and>
    last_checkpoint s = None \<and> \<not> checkpoint_due s now last_cp"
  then obtain s' where s': "phase_iteration w now last_cp s = (Return False, s')"
      "resume_calls s' = resume_calls s"
    using phase_iteration_unhealthy [of w now s last_cp]
    by (auto simp: resume_succeeds_def)
  have "phase_loop w phase_end last_cp now s = (Inr False, now, s')"
    using a s'(1) by (subst phase_loop.simps) simp
  then show "\<exists>s'. phase_loop w phase_end last_cp now s = (Inr False, now, s') \<and>
            resume_calls s' = resume_calls s"
    using s'(2) by simp
qed

lemma stalled_update: "fst (update_metrics stalled_world 1002 started) = Inr ()"
  by (simp add: update_metrics_def stalled_world_def started_def runner_init_def
      sorted_by_mtime_def file_a_def file_b_def read_latest_def Let_def
      SessionMetrics_default_def)

theorem recovery_without_checkpoint_witness:
  "last_checkpoint started = None \<and> running started \<and>
   fst (health_check (cp_dir_at stalled_world 1002) 1002) = Inr False \<and>
   \<not> checkpoint_due started 1002 1000 \<and>
   fst (attempt_recovery stalled_world 1002 started) = False \<and>
   fst (phase_loop stalled_world 4600 1000 1002 started) = Inr False \<and>
   resume_calls (snd (snd (phase_loop stalled_world 4600 1000 1002 started))) = []"
proof -
  have h: "fst (health_check (cp_dir_at stalled_world 1002) 1002) = Inr False"
    by (simp add: health_check_def stalled_world_def sorted_by_mtime_def file_a_def file_b_def)
  have d: "\<not> checkpoint_due started 1002 1000"
    by (simp add: checkpoint_due_def started_def runner_init_def default_config_def)
  have l: "last_checkpoint started = None" "running started" "resume_calls started = []"
    by (simp_all add: started_def runner_init_def resume_calls_def)
  show ?thesis
    using recovery_without_checkpoint [of started stalled_world 1002 4600 1000]
      stalled_update h d l
    by auto
qed

subsection \<open>The phase loop\<close>



















subsection \<open>Malformed snapshots\<close>









subsection \<open>The session\<close>















end
